theory Spec2Isabelle
  imports Complex_Main
begin

section \<open>Number model\<close>

text \<open>
  The program computes with Python floats. They are modelled as real numbers: rounding
  and overflow are left out, every other branch of the source is kept. The source makes
  one non-finite value itself, \<^verbatim>\<open>float('inf')\<close>, for the Reynolds number of an inviscid
  fluid and for the hoop stress of a wall of no thickness; a value that may be this
  infinity has type \<open>xreal\<close>. Where a property depends on the rounding itself, the
  function is written a second time with every float operation rounded
  (\<open>calculate_friction_pressure_drop_fl\<close>).

  What a call can end in besides a real number is a \<open>py_error\<close>: the Python exceptions
  \<open>KeyError\<close>, \<open>ValueError\<close> (\<^verbatim>\<open>math.log10\<close> and \<^verbatim>\<open>math.sqrt\<close> outside their domain),
  \<open>ZeroDivisionError\<close> and \<open>TypeError\<close> (\<^verbatim>\<open>math.log10\<close> of a complex number), and two results
  that are no real number: \<open>ComplexResult\<close> (a negative float to a fractional power is a
  complex number in Python 3) and \<open>NaNResult\<close> (IEEE not-a-number, from \<^verbatim>\<open>inf * 0.0\<close>).
\<close>

datatype py_error =
  KeyError | ValueError | ZeroDivisionError | TypeError | ComplexResult | NaNResult

datatype xreal = Fin real | PInf

text \<open>\<^verbatim>\<open>x < c\<close> and \<^verbatim>\<open>x <= c\<close> for a possibly infinite \<open>x\<close> and a finite \<open>c\<close>.\<close>

fun xless :: "xreal \<Rightarrow> real \<Rightarrow> bool" where
  "xless (Fin r) c = (r < c)"
| "xless PInf c = False"

fun xle :: "xreal \<Rightarrow> real \<Rightarrow> bool" where
  "xle (Fin r) c = (r \<le> c)"
| "xle PInf c = False"

definition py_log10 :: "real \<Rightarrow> py_error + real" where
  "py_log10 x = (if x \<le> 0 then Inl ValueError else Inr (log 10 x))"

definition py_sqrt :: "real \<Rightarrow> py_error + real" where
  "py_sqrt x = (if x < 0 then Inl ValueError else Inr (sqrt x))"

section \<open>Constants (constants.py)\<close>

definition G_ACCELERATION :: real where
  "G_ACCELERATION = 9.81"

record pipe_grade =
  grade_name :: string
  SMYS :: real
  tensile_strength :: real
  description :: string

definition PIPE_GRADES :: "string \<rightharpoonup> pipe_grade" where
  "PIPE_GRADES = map_of
     [(''X42'', \<lparr>grade_name = ''API 5L X42'', SMYS = 290, tensile_strength = 414,
                description = ''Carbon Steel, Seamless/Welded''\<rparr>),
      (''X52'', \<lparr>grade_name = ''API 5L X52'', SMYS = 359, tensile_strength = 455,
                description = ''Carbon Steel, Higher grade''\<rparr>),
      (''X60'', \<lparr>grade_name = ''API 5L X60'', SMYS = 414, tensile_strength = 517,
                description = ''High Strength Carbon Steel''\<rparr>),
      (''X65'', \<lparr>grade_name = ''API 5L X65'', SMYS = 448, tensile_strength = 531,
                description = ''High Strength Carbon Steel''\<rparr>)]"

section \<open>FlowCalculations\<close>

definition calculate_reynolds_number :: "real \<Rightarrow> real \<Rightarrow> real \<Rightarrow> xreal" where
  "calculate_reynolds_number velocity diameter viscosity =
     (if viscosity = 0 then PInf else Fin ((velocity * diameter) / viscosity))"

definition calculate_flow_velocity :: "real \<Rightarrow> real \<Rightarrow> real" where
  "calculate_flow_velocity flow_rate_m3_s internal_diameter_m =
     (if internal_diameter_m \<le> 0 then 0
      else let area = pi * (internal_diameter_m / 2) ^ 2 in flow_rate_m3_s / area)"

definition flow_regime_classification :: "xreal \<Rightarrow> string" where
  "flow_regime_classification reynolds_number =
     (if xless reynolds_number 2300 then ''Laminar (smooth, organized)''
      else if xless reynolds_number 4000 then ''Transitional (unstable)''
      else ''Turbulent (chaotic, faster mixing)'')"

section \<open>FrictionFactorCalculations\<close>

text \<open>\<^verbatim>\<open>64 / inf\<close> is \<open>0.0\<close>.\<close>

definition calculate_friction_factor_laminar :: "xreal \<Rightarrow> real" where
  "calculate_friction_factor_laminar reynolds_number =
     (case reynolds_number of
        PInf \<Rightarrow> 0
      | Fin r \<Rightarrow> if r \<le> 0 then 0 else 64 / r)"

text \<open>
  The Blasius branch \<^verbatim>\<open>0.316 * (reynolds_number ** -0.25)\<close>: \<^verbatim>\<open>inf ** -0.25\<close> is \<open>0.0\<close>,
  \<^verbatim>\<open>0.0 ** -0.25\<close> raises, a negative base gives a complex number.
\<close>

definition blasius :: "xreal \<Rightarrow> py_error + real" where
  "blasius reynolds_number =
     (case reynolds_number of
        PInf \<Rightarrow> Inr (0.316 * 0)
      | Fin r \<Rightarrow>
          if 0 < r then Inr (0.316 * (r powr (- 0.25)))
          else if r = 0 then Inl ZeroDivisionError
          else Inl ComplexResult)"

text \<open>
  The initial guess
  \<^verbatim>\<open>0.25 / (math.log10(relative_roughness / 3.7 + 5.74 / (reynolds_number ** 0.9))) ** 2\<close>.
  \<^verbatim>\<open>5.74 / inf\<close> is \<open>0.0\<close>; \<^verbatim>\<open>5.74 / 0.0\<close> raises; with a negative Reynolds number the
  argument of \<^verbatim>\<open>math.log10\<close> is complex, a \<open>TypeError\<close>.
\<close>

definition swamee_jain_guess :: "xreal \<Rightarrow> real \<Rightarrow> py_error + real" where
  "swamee_jain_guess reynolds_number relative_roughness =
     (case (case reynolds_number of
              PInf \<Rightarrow> Inr (relative_roughness / 3.7 + 0)
            | Fin r \<Rightarrow>
                if r < 0 then Inl TypeError
                else if r = 0 then Inl ZeroDivisionError
                else Inr (relative_roughness / 3.7 + 5.74 / (r powr 0.9))) of
        Inl e \<Rightarrow> Inl e
      | Inr arg \<Rightarrow>
          (case py_log10 arg of
             Inl e \<Rightarrow> Inl e
           | Inr l \<Rightarrow> if l ^ 2 = 0 then Inl ZeroDivisionError else Inr (0.25 / l ^ 2)))"

text \<open>
  One run of the loop body up to \<open>f_new\<close>. \<open>Inr None\<close> is the \<^verbatim>\<open>break\<close> at
  \<^verbatim>\<open>term2_denom == 0\<close>, \<open>Inr (Some f_new)\<close> the new value. With an infinite Reynolds number
  \<^verbatim>\<open>term2_denom\<close> is \<open>inf\<close>, \<^verbatim>\<open>2.51 / inf\<close> is \<open>0.0\<close> and \<^verbatim>\<open>math.log10(0.0)\<close> raises
  \<open>ValueError\<close>; only \<^verbatim>\<open>inf * 0.0\<close> is NaN, which no comparison stops and which the loop
  would return.
\<close>

definition colebrook_iteration :: "xreal \<Rightarrow> real \<Rightarrow> real \<Rightarrow> py_error + real option" where
  "colebrook_iteration reynolds_number relative_roughness f_guess =
     (case py_log10 (relative_roughness / 3.7) of
        Inl e \<Rightarrow> Inl e
      | Inr l1 \<Rightarrow>
          (let term1 = 2.0 * l1 in
           case py_sqrt f_guess of
             Inl e \<Rightarrow> Inl e
           | Inr s \<Rightarrow>
               (case reynolds_number of
                  PInf \<Rightarrow> if s = 0 then Inl NaNResult else Inl ValueError
                | Fin r \<Rightarrow>
                    (let term2_denom = r * s in
                     if term2_denom = 0 then Inr None
                     else
                       case py_log10 (2.51 / term2_denom) of
                         Inl e \<Rightarrow> Inl e
                       | Inr l2 \<Rightarrow>
                           (let term2 = 2.0 * l2 in
                            if (term1 + term2) ^ 2 = 0 then Inl ZeroDivisionError
                            else Inr (Some (1.0 / ((term1 + term2) ^ 2))))))))"

text \<open>\<^verbatim>\<open>for _ in range(5)\<close>: the first argument counts the runs that are left.\<close>

fun colebrook_loop :: "nat \<Rightarrow> xreal \<Rightarrow> real \<Rightarrow> real \<Rightarrow> py_error + real" where
  "colebrook_loop 0 reynolds_number relative_roughness f_guess = Inr f_guess"
| "colebrook_loop (Suc n) reynolds_number relative_roughness f_guess =
     (case colebrook_iteration reynolds_number relative_roughness f_guess of
        Inl e \<Rightarrow> Inl e
      | Inr None \<Rightarrow> Inr f_guess
      | Inr (Some f_new) \<Rightarrow>
          if \<bar>f_new - f_guess\<bar> < 0.000001 then Inr f_guess
          else colebrook_loop n reynolds_number relative_roughness f_new)"

definition calculate_friction_factor_turbulent_colebrook ::
    "xreal \<Rightarrow> real \<Rightarrow> py_error + real" where
  "calculate_friction_factor_turbulent_colebrook reynolds_number relative_roughness =
     (if relative_roughness < 0.00001 then blasius reynolds_number
      else
        case swamee_jain_guess reynolds_number relative_roughness of
          Inl e \<Rightarrow> Inl e
        | Inr f_guess \<Rightarrow> colebrook_loop 5 reynolds_number relative_roughness f_guess)"

definition calculate_friction_factor ::
    "xreal \<Rightarrow> real \<Rightarrow> real \<Rightarrow> py_error + (real \<times> string)" where
  "calculate_friction_factor reynolds_number absolute_roughness diameter =
     (if diameter \<le> 0 then Inr (0, ''Invalid diameter'')
      else if xless reynolds_number 2300 then
        Inr (calculate_friction_factor_laminar reynolds_number, ''Laminar'')
      else
        (let relative_roughness = absolute_roughness / diameter in
         case calculate_friction_factor_turbulent_colebrook reynolds_number relative_roughness of
           Inl e \<Rightarrow> Inl e
         | Inr f \<Rightarrow> Inr (f, ''Turbulent'')))"

text \<open>
  The right-hand side of the Colebrook-White equation solved for \<open>f\<close>, as the docstring
  of the solver and the specification write it:
  \<open>1/\<surd>f = -2 log\<^sub>1\<^sub>0 (\<epsilon>/3.7 + 2.51/(Re \<surd>f))\<close>. It is the reference the loop body is compared
  with; the program does not contain it.
\<close>

definition colebrook_white_rhs :: "real \<Rightarrow> real \<Rightarrow> real \<Rightarrow> real" where
  "colebrook_white_rhs re relative_roughness f =
     1 / (- 2 * log 10 (relative_roughness / 3.7 + 2.51 / (re * sqrt f))) ^ 2"

section \<open>PressureDropCalculations\<close>

definition calculate_friction_pressure_drop ::
    "real \<Rightarrow> real \<Rightarrow> real \<Rightarrow> real \<Rightarrow> real \<Rightarrow> real" where
  "calculate_friction_pressure_drop friction_factor length_m diameter_m velocity_ms density_kg_m3 =
     (if diameter_m \<le> 0 \<or> density_kg_m3 \<le> 0 then 0
      else friction_factor * (length_m / diameter_m) * (density_kg_m3 * velocity_ms ^ 2 / 2))"




definition calculate_elevation_pressure_drop :: "real \<Rightarrow> real \<Rightarrow> real" where
  "calculate_elevation_pressure_drop elevation_gain_m density_kg_m3 =
     density_kg_m3 * G_ACCELERATION * elevation_gain_m"

definition calculate_total_pressure_drop :: "real \<Rightarrow> real \<Rightarrow> real \<times> real" where
  "calculate_total_pressure_drop friction_dp_pa elevation_dp_pa =
     (let minor_losses = \<bar>friction_dp_pa\<bar> * 0.10;
          total_dp = friction_dp_pa + elevation_dp_pa + minor_losses
      in (total_dp, minor_losses))"

definition convert_pressure_drop_to_bar_per_km :: "real \<Rightarrow> real \<Rightarrow> real" where
  "convert_pressure_drop_to_bar_per_km pressure_drop_pa length_km =
     (if length_km \<le> 0 then 0
      else let pressure_drop_bar = pressure_drop_pa / 100000
           in (pressure_drop_bar / length_km) * 100)"

section \<open>PipeSizingCalculations\<close>

definition calculate_internal_diameter :: "real \<Rightarrow> real \<Rightarrow> real" where
  "calculate_internal_diameter outside_diameter_mm wall_thickness_mm =
     outside_diameter_mm - 2 * wall_thickness_mm"

definition calculate_required_wall_thickness :: "real \<Rightarrow> real \<Rightarrow> real \<Rightarrow> real \<Rightarrow> real" where
  "calculate_required_wall_thickness internal_pressure_mpa outside_diameter_mm smys_mpa design_factor =
     (if smys_mpa \<le> 0 \<or> design_factor \<le> 0 then 0
      else (internal_pressure_mpa * outside_diameter_mm) / (2 * design_factor * smys_mpa))"

definition calculate_hoop_stress :: "real \<Rightarrow> real \<Rightarrow> real \<Rightarrow> xreal" where
  "calculate_hoop_stress internal_pressure_mpa outside_diameter_mm wall_thickness_mm =
     (if wall_thickness_mm \<le> 0 then PInf
      else Fin ((internal_pressure_mpa * outside_diameter_mm) / (2 * wall_thickness_mm)))"

text \<open>
  The dictionary \<^verbatim>\<open>check_pressure_containment\<close> returns, without its \<^verbatim>\<open>'message'\<close>, a
  rendering of the other entries with \<^verbatim>\<open>:.2f\<close>. With an infinite hoop stress and a positive
  allowable stress \<^verbatim>\<open>margin\<close> is \<open>-inf\<close>, and \<^verbatim>\<open>max(0, -inf)\<close> is \<open>0\<close>.
\<close>

record containment =
  safe :: bool
  margin_percent :: real
  hoop_stress :: xreal
  allowable_stress :: real

definition check_pressure_containment :: "xreal \<Rightarrow> real \<Rightarrow> real \<Rightarrow> containment" where
  "check_pressure_containment hoop_stress_mpa smys_mpa design_factor =
     (let allowable_stress = design_factor * smys_mpa in
      \<lparr>safe = xle hoop_stress_mpa allowable_stress,
       margin_percent =
         (case hoop_stress_mpa of
            PInf \<Rightarrow> 0
          | Fin h \<Rightarrow>
              max 0 (if allowable_stress > 0
                     then (allowable_stress - h) / allowable_stress * 100 else 0)),
       hoop_stress = hoop_stress_mpa,
       allowable_stress = allowable_stress\<rparr>)"

section \<open>PipelineAnalysis\<close>

text \<open>
  The report is a dictionary of eight dictionaries; each is a record here, with the
  source's keys as field names (prefixed where two sections share a key). The two
  rendered strings, \<^verbatim>\<open>'compliance_message'\<close> and the optional \<^verbatim>\<open>'warning'\<close>, are left out
  but for the presence of the warning.
\<close>

record input_section =
  flow_rate_m3_s :: real
  pipe_od_mm :: real
  in_wall_thickness_mm :: real
  pipe_length_km :: real
  elevation_start :: real
  elevation_end :: real
  operating_pressure_bar :: real
  pipe_grade_key :: string

record pipe_dimensions_section =
  outside_diameter_mm :: real
  wall_thickness_mm :: real
  internal_diameter_mm :: real
  internal_diameter_m :: real

record flow_properties_section =
  velocity_ms :: real
  reynolds_number :: xreal
  flow_regime :: string
  fluid_density :: real
  fluid_viscosity :: real

record friction_section =
  friction_factor :: real
  calculation_method :: string
  pipe_roughness_m :: real

record pressure_drop_section =
  friction_loss_pa :: real
  friction_loss_bar :: real
  elevation_change_pa :: real
  elevation_change_bar :: real
  minor_losses_pa :: real
  minor_losses_bar :: real
  total_pressure_drop_pa :: real
  total_pressure_drop_bar :: real
  bar_per_100km :: real

record outlet_pressure_section =
  inlet_pressure_bar :: real
  outlet_pressure_bar :: real
  pressure_loss_percent :: real

record pressure_containment_section =
  design_pressure_bar :: real
  design_pressure_mpa :: real
  hoop_stress_mpa :: xreal
  allowable_stress_mpa :: real
  pc_safe :: bool
  safety_margin_percent :: real

record velocity_check_section =
  vc_velocity_ms :: real
  velocity_limit_typical_ms :: real
  within_limit :: bool
  has_warning :: bool

record report =
  input :: input_section
  pipe_dimensions :: pipe_dimensions_section
  flow_properties :: flow_properties_section
  friction :: friction_section
  pressure_drop :: pressure_drop_section
  outlet_pressure :: outlet_pressure_section
  pressure_containment :: pressure_containment_section
  velocity_check :: velocity_check_section

definition analyze_pipeline ::
    "real \<Rightarrow> real \<Rightarrow> real \<Rightarrow> real \<Rightarrow> real \<Rightarrow> real \<Rightarrow> real \<Rightarrow> real \<Rightarrow> real \<Rightarrow> real \<Rightarrow> string
       \<Rightarrow> py_error + report" where
  "analyze_pipeline flow_rate od_mm wall_mm length_km elevation_start_m elevation_end_m
       operating_bar density viscosity roughness grade =
     (let id_mm = calculate_internal_diameter od_mm wall_mm;
          id_m = id_mm / 1000;
          velocity = calculate_flow_velocity flow_rate id_m;
          re = calculate_reynolds_number velocity id_m viscosity;
          regime_class = flow_regime_classification re
      in
      case calculate_friction_factor re roughness id_m of
        Inl e \<Rightarrow> Inl e
      | Inr (f, regime) \<Rightarrow>
          (let length_m = length_km * 1000;
               dp_friction = calculate_friction_pressure_drop f length_m id_m velocity density;
               elevation_change = elevation_end_m - elevation_start_m;
               dp_elevation = calculate_elevation_pressure_drop elevation_change density;
               (dp_total, dp_minor) = calculate_total_pressure_drop dp_friction dp_elevation;
               dp_bar_per_100km = convert_pressure_drop_to_bar_per_km dp_friction length_km;
               inlet_pressure_pa = operating_bar * 100000;
               outlet_pressure_pa = inlet_pressure_pa - dp_total;
               outlet_bar = outlet_pressure_pa / 100000;
               design_bar = operating_bar * 1.5;
               design_mpa = design_bar / 10
           in
           case PIPE_GRADES grade of
             None \<Rightarrow> Inl KeyError
           | Some g \<Rightarrow>
               (let smys_mpa = SMYS g;
                    hoop = calculate_hoop_stress design_mpa od_mm wall_mm;
                    pressure_check = check_pressure_containment hoop smys_mpa 0.72
                in
                Inr \<lparr>input =
                       \<lparr>flow_rate_m3_s = flow_rate, pipe_od_mm = od_mm,
                        in_wall_thickness_mm = wall_mm, pipe_length_km = length_km,
                        elevation_start = elevation_start_m, elevation_end = elevation_end_m,
                        operating_pressure_bar = operating_bar, pipe_grade_key = grade\<rparr>,
                     pipe_dimensions =
                       \<lparr>outside_diameter_mm = od_mm, wall_thickness_mm = wall_mm,
                        internal_diameter_mm = id_mm, internal_diameter_m = id_m\<rparr>,
                     flow_properties =
                       \<lparr>velocity_ms = velocity, reynolds_number = re,
                        flow_regime = regime_class, fluid_density = density,
                        fluid_viscosity = viscosity\<rparr>,
                     friction =
                       \<lparr>friction_factor = f, calculation_method = regime,
                        pipe_roughness_m = roughness\<rparr>,
                     pressure_drop =
                       \<lparr>friction_loss_pa = dp_friction,
                        friction_loss_bar = dp_friction / 100000,
                        elevation_change_pa = dp_elevation,
                        elevation_change_bar = dp_elevation / 100000,
                        minor_losses_pa = dp_minor,
                        minor_losses_bar = dp_minor / 100000,
                        total_pressure_drop_pa = dp_total,
                        total_pressure_drop_bar = dp_total / 100000,
                        bar_per_100km = dp_bar_per_100km\<rparr>,
                     outlet_pressure =
                       \<lparr>inlet_pressure_bar = operating_bar,
                        outlet_pressure_bar = max 0 outlet_bar,
                        pressure_loss_percent =
                          (if inlet_pressure_pa > 0 then dp_total / inlet_pressure_pa * 100
                           else 0)\<rparr>,
                     pressure_containment =
                       \<lparr>design_pressure_bar = design_bar, design_pressure_mpa = design_mpa,
                        hoop_stress_mpa = hoop, allowable_stress_mpa = 0.72 * smys_mpa,
                        pc_safe = safe pressure_check,
                        safety_margin_percent = margin_percent pressure_check\<rparr>,
                     velocity_check =
                       \<lparr>vc_velocity_ms = velocity, velocity_limit_typical_ms = 4.0,
                        within_limit = (velocity \<le> 4.0),
                        has_warning = (velocity > 4.0)\<rparr>\<rparr>)))"

section \<open>Auxiliary facts\<close>

lemma grade_X52:
  "PIPE_GRADES ''X52'' =
     Some \<lparr>grade_name = ''API 5L X52'', SMYS = 359, tensile_strength = 455,
           description = ''Carbon Steel, Higher grade''\<rparr>"
  by (simp add: PIPE_GRADES_def)

lemma log10_hundredth: "log 10 (1 / 100) = - 2"
proof -
  have "log 10 (100::real) = 2" using log_nat_power [of 10 10 2] by simp
  then show ?thesis by (simp add: log_recip)
qed

lemma log10_tenth: "log 10 (1 / 10) = - 1"
  by (simp add: log_recip)

lemma log10_tenthousandth: "log 10 (1 / 10000) = - 4"
proof -
  have "log 10 (10000::real) = 4" using log_nat_power [of 10 10 4] by simp
  then show ?thesis by (simp add: log_recip)
qed

lemma log10_band_2_1:
  assumes "1 / 100 < x" "x < 1 / 10"
  shows "- 2 < log 10 x" "log 10 x < - 1"
proof -
  from assms have x: "0 < x" by simp
  have "log 10 (1 / 100) < log 10 x" using assms x by (subst log_less_cancel_iff) simp_all
  then show "- 2 < log 10 x" by (simp only: log10_hundredth)
  have "log 10 x < log 10 (1 / 10)" using assms x by (subst log_less_cancel_iff) simp_all
  then show "log 10 x < - 1" by (simp only: log10_tenth)
qed

lemma log10_band_4_2:
  assumes "1 / 10000 < x" "x < 1 / 100"
  shows "- 4 < log 10 x" "log 10 x < - 2"
proof -
  from assms have x: "0 < x" by simp
  have "log 10 (1 / 10000) < log 10 x" using assms x by (subst log_less_cancel_iff) simp_all
  then show "- 4 < log 10 x" by (simp only: log10_tenthousandth)
  have "log 10 x < log 10 (1 / 100)" using assms x by (subst log_less_cancel_iff) simp_all
  then show "log 10 x < - 2" by (simp only: log10_hundredth)
qed

lemma inv_sq_band:
  fixes l :: real
  assumes "- b < l" "l < - a" "0 < a"
  shows "1 / b ^ 2 < 1 / l ^ 2" "1 / l ^ 2 < 1 / a ^ 2"
proof -
  from assms have "a < - l" "0 \<le> a" by simp_all
  then have "a ^ 2 < (- l) ^ 2" by (intro power_strict_mono) simp_all
  then have lo: "a ^ 2 < l ^ 2" by simp
  from assms have "- l < b" "0 \<le> - l" by simp_all
  then have "(- l) ^ 2 < b ^ 2" by (intro power_strict_mono) simp_all
  then have hi: "l ^ 2 < b ^ 2" by simp
  from assms have apos: "0 < a ^ 2" by simp
  with lo have lpos: "0 < l ^ 2" by linarith
  show "1 / b ^ 2 < 1 / l ^ 2" using hi lpos by (simp add: frac_less2)
  show "1 / l ^ 2 < 1 / a ^ 2" using lo apos by (simp add: frac_less2)
qed

lemma powr_09_big: "100 < (25100::real) powr 0.9"
proof -
  have "(100::real) = sqrt (100 ^ 2)" by simp
  also have "\<dots> < sqrt 25100" by (subst real_sqrt_less_iff) simp
  also have "\<dots> = 25100 powr (1 / 2)" by (simp add: powr_half_sqrt)
  also have "\<dots> \<le> 25100 powr 0.9" by (rule powr_mono) simp_all
  finally show ?thesis .
qed

section \<open>The loop body of the turbulent solver\<close>

text \<open>
  What one run of the loop body computes, for positive arguments: the two logarithms are
  taken apart and added, which is the logarithm of the \<^emph>\<open>product\<close> of
  \<open>\<epsilon>/3.7\<close> and \<open>2.51/(Re \<surd>f)\<close>, where the Colebrook-White equation has their sum.
\<close>

lemma colebrook_iteration_product:
  assumes "0 < r" "0 < rr" "0 < f"
  shows "colebrook_iteration (Fin r) rr f =
           (if (2 * log 10 ((rr / 3.7) * (2.51 / (r * sqrt f)))) ^ 2 = 0
            then Inl ZeroDivisionError
            else Inr (Some (1 / (2 * log 10 ((rr / 3.7) * (2.51 / (r * sqrt f)))) ^ 2)))"
proof -
  from assms have s: "0 < sqrt f" by simp
  with assms have d: "0 < r * sqrt f" by simp
  then have q: "0 < 2.51 / (r * sqrt f)" by simp
  from assms have p: "0 < rr / 3.7" by simp
  have "log 10 ((rr / 3.7) * (2.51 / (r * sqrt f))) =
          log 10 (rr / 3.7) + log 10 (2.51 / (r * sqrt f))"
    using p q by (rule log_mult_pos)
  moreover from p have "\<not> rr / 3.7 \<le> 0" by linarith
  moreover from q have "\<not> 2.51 / (r * sqrt f) \<le> 0" by linarith
  moreover from d have "r * sqrt f \<noteq> 0" by linarith
  moreover from assms have "\<not> f < 0" by linarith
  ultimately show ?thesis
    by (simp only: colebrook_iteration_def py_log10_def py_sqrt_def Let_def if_False
        sum.case xreal.case distrib_left) simp
qed

text \<open>The solver at \<open>Re = 25100\<close> and relative roughness \<open>0.037\<close>, step by step.\<close>

lemma seed_25100:
  "\<exists>f0. swamee_jain_guess (Fin 25100) 0.037 = Inr f0 \<and> 1 / 16 < f0 \<and> f0 < 1 / 4"
proof -
  define a :: real where "a = 0.037 / 3.7 + 5.74 / (25100 powr 0.9)"
  have "0 < 5.74 / ((25100::real) powr 0.9)" by simp
  moreover have "5.74 / ((25100::real) powr 0.9) < 5.74 / 100"
    using powr_09_big by (intro divide_strict_left_mono) simp_all
  ultimately have a: "1 / 100 < a" "a < 1 / 10" by (simp_all add: a_def)
  then have l: "- 2 < log 10 a" "log 10 a < - 1" by (rule log10_band_2_1)+
  have b: "1 / 2 ^ 2 < 1 / (log 10 a) ^ 2" "1 / (log 10 a) ^ 2 < 1 / 1 ^ 2"
    using inv_sq_band [of 2 "log 10 a" 1] l by simp_all
  from l have nz: "(log 10 a) ^ 2 \<noteq> 0" by simp
  from a have "\<not> a \<le> 0" by simp
  then have "swamee_jain_guess (Fin 25100) 0.037 = Inr (0.25 / (log 10 a) ^ 2)"
    using nz by (simp add: swamee_jain_guess_def py_log10_def a_def)
  moreover have "1 / 16 < 0.25 / (log 10 a) ^ 2" "0.25 / (log 10 a) ^ 2 < 1 / 4"
    using b by simp_all
  ultimately show ?thesis by blast
qed

lemma iteration_25100:
  assumes "1 / 400 < f" "f < 1 / 4"
  shows "\<exists>f'. colebrook_iteration (Fin 25100) 0.037 f = Inr (Some f') \<and>
           1 / 144 < f' \<and> f' < 1 / 64"
proof -
  have "(1 / 20) ^ 2 < f" using assms by (simp add: power2_eq_square)
  then have s1: "1 / 20 < sqrt f" by (rule real_less_rsqrt)
  have "f < (1 / 2) ^ 2" using assms by (simp add: power2_eq_square)
  then have s2: "sqrt f < 1 / 2" by (intro real_less_lsqrt) simp_all
  define d where "d = 25100 * sqrt f"
  from s1 s2 have d: "1255 < d" "d < 12550" by (simp_all add: d_def)
  then have q: "1 / 10000 < 2.51 / d" "2.51 / d < 1 / 100" by (simp_all add: field_simps)
  then have l: "- 4 < log 10 (2.51 / d)" "log 10 (2.51 / d) < - 2" by (rule log10_band_4_2)+
  define t where "t = 2 * log 10 (1 / 100) + 2 * log 10 (2.51 / d)"
  from l have t: "- 12 < t" "t < - 8" by (simp_all add: t_def log10_hundredth)
  have b: "1 / 12 ^ 2 < 1 / t ^ 2" "1 / t ^ 2 < 1 / 8 ^ 2"
    using inv_sq_band [of 12 t 8] t by simp_all
  from t have nz: "t ^ 2 \<noteq> 0" by simp
  from q(1) have qpos: "\<not> 2.51 / d \<le> 0" by linarith
  from d have dnz: "d \<noteq> 0" by simp
  from assms have fnn: "\<not> f < 0" by simp
  have "colebrook_iteration (Fin 25100) 0.037 f = Inr (Some (1 / t ^ 2))"
    using nz qpos dnz fnn unfolding t_def d_def
    by (simp add: colebrook_iteration_def py_log10_def py_sqrt_def Let_def)
  with b show ?thesis by simp
qed

lemma loop_25100:
  assumes "1 / 400 < f" "f < 1 / 16"
  shows "\<exists>f'. colebrook_loop n (Fin 25100) 0.037 f = Inr f' \<and> 1 / 400 < f' \<and> f' < 1 / 16"
  using assms
proof (induction n arbitrary: f)
  case 0
  then show ?case by simp
next
  case (Suc n)
  from Suc.prems have "1 / 400 < f" "f < 1 / 4" by simp_all
  then obtain g where g: "colebrook_iteration (Fin 25100) 0.037 f = Inr (Some g)"
    "1 / 144 < g" "g < 1 / 64"
    using iteration_25100 by blast
  then have "1 / 400 < g" "g < 1 / 16" by simp_all
  then obtain f' where "colebrook_loop n (Fin 25100) 0.037 g = Inr f'" "1 / 400 < f'" "f' < 1 / 16"
    using Suc.IH by blast
  with g Suc.prems show ?case by simp
qed

text \<open>
  Substituting into the Colebrook-White form instead keeps every value of \<open>(1/16, 1/4)\<close>
  inside that interval.
\<close>

lemma colebrook_white_rhs_25100:
  assumes "1 / 16 < f" "f < 1 / 4"
  shows "1 / 16 < colebrook_white_rhs 25100 0.037 f" "colebrook_white_rhs 25100 0.037 f < 1 / 4"
proof -
  have "(1 / 4) ^ 2 < f" using assms by (simp add: power2_eq_square)
  then have s: "1 / 4 < sqrt f" by (rule real_less_rsqrt)
  define d where "d = 25100 * sqrt f"
  from s have d: "6275 < d" by (simp add: d_def)
  then have q: "0 < 2.51 / d" "2.51 / d < 1 / 100" by (simp_all add: field_simps)
  define a where "a = 0.037 / 3.7 + 2.51 / d"
  have "a = 1 / 100 + 2.51 / d" by (simp add: a_def)
  with q have a: "1 / 100 < a" "a < 1 / 10" by linarith+
  then have l: "- 2 < log 10 a" "log 10 a < - 1" by (rule log10_band_2_1)+
  have b: "1 / 2 ^ 2 < 1 / (log 10 a) ^ 2" "1 / (log 10 a) ^ 2 < 1 / 1 ^ 2"
    using inv_sq_band [of 2 "log 10 a" 1] l by simp_all
  have "colebrook_white_rhs 25100 0.037 f = 1 / (4 * (log 10 a) ^ 2)"
    unfolding colebrook_white_rhs_def a_def d_def by (simp add: power_mult_distrib)
  with b show "1 / 16 < colebrook_white_rhs 25100 0.037 f"
    "colebrook_white_rhs 25100 0.037 f < 1 / 4"
    by (simp_all add: field_simps)
qed

text \<open>
  C1. Each run of the loop is claimed to substitute \<open>f\<^sub>n\<close> into the Colebrook-White form,
  \<open>f\<^sub>n\<^sub>+\<^sub>1 = 1/(-2 log\<^sub>1\<^sub>0 (\<epsilon>/3.7 + 2.51/(Re \<surd>f\<^sub>n)))\<^sup>2\<close>. The program does not: at \<open>Re = 25100\<close>
  and relative roughness \<open>0.037\<close> the first run takes the initial guess \<open>f\<^sub>0 > 1/16\<close> to a
  value below \<open>1/64\<close>, where the Colebrook-White form gives more than \<open>1/16\<close>, and the call
  returns a friction factor below \<open>1/16\<close>.
\<close>

theorem colebrook_loop_is_not_colebrook_white:
  "\<exists>f0 f1 f.
      swamee_jain_guess (Fin 25100) 0.037 = Inr f0 \<and>
      colebrook_iteration (Fin 25100) 0.037 f0 = Inr (Some f1) \<and>
      f1 < 1 / 64 \<and> 1 / 16 < colebrook_white_rhs 25100 0.037 f0 \<and>
      calculate_friction_factor_turbulent_colebrook (Fin 25100) 0.037 = Inr f \<and>
      f < 1 / 16"
proof -
  obtain f0 where f0: "swamee_jain_guess (Fin 25100) 0.037 = Inr f0" "1 / 16 < f0" "f0 < 1 / 4"
    using seed_25100 by blast
  then have "1 / 400 < f0" by simp
  then obtain f1 where f1: "colebrook_iteration (Fin 25100) 0.037 f0 = Inr (Some f1)"
    "1 / 144 < f1" "f1 < 1 / 64"
    using iteration_25100 f0(3) by blast
  then have "1 / 400 < f1" "f1 < 1 / 16" by simp_all
  then obtain f where f: "colebrook_loop 4 (Fin 25100) 0.037 f1 = Inr f" "1 / 400 < f" "f < 1 / 16"
    using loop_25100 by blast
  from f0 f1 have far: "\<not> \<bar>f1 - f0\<bar> < 0.000001" by simp
  have "colebrook_loop 5 (Fin 25100) 0.037 f0 = colebrook_loop 4 (Fin 25100) 0.037 f1"
    using f1(1) far by (simp add: numeral_eq_Suc)
  then have "calculate_friction_factor_turbulent_colebrook (Fin 25100) 0.037 = Inr f"
    using f0(1) f(1) by (simp add: calculate_friction_factor_turbulent_colebrook_def)
  moreover have "1 / 16 < colebrook_white_rhs 25100 0.037 f0"
    using f0 by (intro colebrook_white_rhs_25100)
  ultimately show ?thesis using f0(1) f1(1) f1(3) f(3) by blast
qed

section \<open>The friction-factor selector\<close>

text \<open>
  C2, as amended. With a positive diameter the selector labels its result \<open>''Laminar''\<close>
  below \<open>Re = 2300\<close> and \<open>''Turbulent''\<close> from there on, whichever of the two turbulent
  formulas ran; a call that raises has a Reynolds number of at least 2300.
\<close>

theorem friction_method_label:
  assumes "0 < d"
  shows "(case calculate_friction_factor re rough d of
            Inl e \<Rightarrow> \<not> xless re 2300
          | Inr (f, regime) \<Rightarrow>
              regime = (if xless re 2300 then ''Laminar'' else ''Turbulent''))"
  using assms by (auto simp: calculate_friction_factor_def Let_def split: sum.splits)

theorem friction_method_label_witness:
  "(0::real) < 1 \<and> calculate_friction_factor (Fin 100) 0 1 = Inr (64 / 100, ''Laminar'')"
  using friction_method_label [of 1 "Fin 100" 0]
  by (simp add: calculate_friction_factor_def calculate_friction_factor_laminar_def)

text \<open>
  The claim as stated fails on the smooth-pipe path: the label there is \<open>''Turbulent''\<close>,
  none of the three names of the claim.
\<close>

theorem friction_method_label_counterexample:
  "calculate_friction_factor (Fin 10000) 0 1 = Inr (0.316 * 10000 powr (- 0.25), ''Turbulent'') \<and>
   ''Turbulent'' \<notin> {''Laminar'', ''Turbulent-Blasius'', ''Turbulent-Colebrook''}"
  by (simp add: calculate_friction_factor_def calculate_friction_factor_turbulent_colebrook_def
      blasius_def)

text \<open>
  C7. In the smooth-pipe band, relative roughness below \<open>10\<^sup>-\<^sup>5\<close>, the turbulent friction
  factor is the Blasius value \<open>0.316 Re\<^sup>-\<^sup>0\<^sup>.\<^sup>2\<^sup>5\<close> for every \<open>Re \<ge> 2300\<close>, its limit \<open>0\<close> for an
  infinite Reynolds number, and the selector passes it on; neither the initial guess nor the
  loop takes part.
\<close>

theorem blasius_smooth_band:
  assumes "rr < 0.00001" and "2300 \<le> r"
  shows "calculate_friction_factor_turbulent_colebrook (Fin r) rr = Inr (0.316 * r powr (- 0.25)) \<and>
         calculate_friction_factor_turbulent_colebrook (Fin r) rr = blasius (Fin r) \<and>
         calculate_friction_factor_turbulent_colebrook PInf rr = Inr 0 \<and>
         (0 < d \<and> rough / d = rr \<longrightarrow>
            calculate_friction_factor (Fin r) rough d = Inr (0.316 * r powr (- 0.25), ''Turbulent''))"
  using assms
  by (auto simp: calculate_friction_factor_def calculate_friction_factor_turbulent_colebrook_def
      blasius_def)

theorem blasius_smooth_band_witness:
  "(0::real) < 0.00001 \<and> (2300::real) \<le> 10000 \<and>
   calculate_friction_factor_turbulent_colebrook (Fin 10000) 0 = Inr (0.316 * 10000 powr (- 0.25)) \<and>
   calculate_friction_factor (Fin 10000) 0 1 = Inr (0.316 * 10000 powr (- 0.25), ''Turbulent'')"
  using blasius_smooth_band [of 0 10000 1 0] by simp

text \<open>
  C8, as amended. With a positive diameter and \<open>Re < 2300\<close> the selector takes the laminar
  path: \<open>f = 64/Re\<close>, and the sentinel \<open>0\<close> for \<open>Re \<le> 0\<close>.
\<close>

theorem laminar_selector:
  assumes "0 < d" and "r < 2300"
  shows "calculate_friction_factor (Fin r) rough d =
           Inr (if r \<le> 0 then 0 else 64 / r, ''Laminar'')"
  using assms by (simp add: calculate_friction_factor_def calculate_friction_factor_laminar_def)

theorem laminar_selector_witness:
  "(0::real) < 3 / 10 \<and> (1000::real) < 2300 \<and>
   calculate_friction_factor (Fin 1000) 0.000045 (3 / 10) = Inr (64 / 1000, ''Laminar'')"
  using laminar_selector [of "3 / 10" 1000 "0.000045"] by simp

text \<open>
  Without the positive diameter the claim fails: the diameter check comes first, and at
  diameter \<open>0\<close> and \<open>Re = 100\<close> the selector returns \<open>0\<close>, not \<open>64/100\<close>, under the label
  \<open>''Invalid diameter''\<close>.
\<close>

theorem laminar_selector_counterexample:
  "calculate_friction_factor (Fin 100) 0 0 = Inr (0, ''Invalid diameter'') \<and>
   (0::real) \<noteq> 64 / 100"
  by (simp add: calculate_friction_factor_def)

section \<open>Pressure drop\<close>










section \<open>Pressure containment\<close>

text \<open>
  C4, as amended. When the allowable stress \<open>design_factor * SMYS\<close> is positive, the check
  reports \<open>safe\<close> with a margin of \<open>0\<close> exactly when the hoop stress equals the allowable
  stress; whatever the allowable stress, a hoop stress equal to it is reported so.
\<close>

theorem containment_boundary:
  "(0 < design_factor * smys \<longrightarrow>
      (safe (check_pressure_containment h smys design_factor) \<and>
       margin_percent (check_pressure_containment h smys design_factor) = 0
       \<longleftrightarrow> h = Fin (design_factor * smys))) \<and>
   (h = Fin (design_factor * smys) \<longrightarrow>
      safe (check_pressure_containment h smys design_factor) \<and>
      margin_percent (check_pressure_containment h smys design_factor) = 0)"
  by (cases h)
    (auto simp: check_pressure_containment_def Let_def max_def field_simps split: if_splits)

theorem containment_boundary_witness:
  "(0::real) < 0.72 * 359 \<and>
   safe (check_pressure_containment (Fin (0.72 * 359)) 359 0.72) \<and>
   margin_percent (check_pressure_containment (Fin (0.72 * 359)) 359 0.72) = 0"
  using containment_boundary [of "0.72" 359 "Fin (0.72 * 359)"] by simp

text \<open>
  With an allowable stress of \<open>0\<close> the margin is \<open>0\<close> by the guard of the source, and a
  negative hoop stress is safe with margin \<open>0\<close> without being equal to the allowable stress.
\<close>

theorem containment_boundary_counterexample:
  "safe (check_pressure_containment (Fin (- 1)) 0 0.72) \<and>
   margin_percent (check_pressure_containment (Fin (- 1)) 0 0.72) = 0 \<and>
   Fin (- 1) \<noteq> Fin (0.72 * 0)"
  by (simp add: check_pressure_containment_def)

section \<open>The orchestrator\<close>

text \<open>
  An inviscid fluid has an infinite Reynolds number. On the rough-pipe path the solver
  then never returns: the loop body takes \<^verbatim>\<open>math.log10\<close> of \<^verbatim>\<open>2.51 / inf\<close>, which is \<open>0.0\<close>
  (and at relative roughness \<open>3.7\<close> the initial guess already divides by \<open>0\<close>).
\<close>

lemma colebrook_inviscid:
  assumes "0.00001 \<le> rr"
  shows "calculate_friction_factor_turbulent_colebrook PInf rr =
           Inl (if rr = 3.7 then ZeroDivisionError else ValueError)"
proof (cases "rr = 3.7")
  case True
  then show ?thesis
    by (simp add: calculate_friction_factor_turbulent_colebrook_def swamee_jain_guess_def
        py_log10_def)
next
  case False
  from assms have pos: "0 < rr / 3.7" by simp
  from False have "rr / 3.7 \<noteq> 1" by simp
  with pos have "log 10 (rr / 3.7) < 0 \<or> 0 < log 10 (rr / 3.7)"
    using log_less_zero_cancel_iff [of 10 "rr / 3.7"] zero_less_log_cancel_iff [of 10 "rr / 3.7"]
    by linarith
  then have l: "log 10 (rr / 3.7) \<noteq> 0" by linarith
  then have g: "0 < 0.25 / (log 10 (rr / 3.7)) ^ 2" by simp
  have sj: "swamee_jain_guess PInf rr = Inr (0.25 / (log 10 (rr / 3.7)) ^ 2)"
    using pos l by (simp add: swamee_jain_guess_def py_log10_def)
  have it: "colebrook_iteration PInf rr (0.25 / (log 10 (rr / 3.7)) ^ 2) = Inl ValueError"
    using pos g l by (simp add: colebrook_iteration_def py_log10_def py_sqrt_def)
  show ?thesis
    using assms False sj it
    by (simp add: calculate_friction_factor_turbulent_colebrook_def numeral_eq_Suc)
qed

text \<open>A grade that is not in the table never yields a report.\<close>

lemma analyze_pipeline_unknown_grade:
  "PIPE_GRADES g = None \<Longrightarrow> \<exists>e. analyze_pipeline q od wt len e0 e1 p rho mu rough g = Inl e"
  by (auto simp: analyze_pipeline_def Let_def split: sum.splits prod.splits)

text \<open>
  C5. A grade of the table is claimed to give a complete report always. The worked example
  of the source with the viscosity set to \<open>0\<close>, grade \<open>X52\<close>, gives none: the call ends in
  the \<open>ValueError\<close> of the friction-factor solver, before the grade is looked up.
\<close>

theorem analyze_pipeline_inviscid_rough_raises:
  "PIPE_GRADES ''X52'' \<noteq> None \<and>
   analyze_pipeline 0.05 323.9 6.4 30 0 100 20 900 0 0.000045 ''X52'' = Inl ValueError"
proof -
  have "calculate_friction_factor_turbulent_colebrook PInf (0.000045 / 0.3111) = Inl ValueError"
    using colebrook_inviscid [of "0.000045 / 0.3111"] by simp
  then show ?thesis
    by (simp add: analyze_pipeline_def Let_def calculate_internal_diameter_def
        calculate_reynolds_number_def calculate_friction_factor_def grade_X52)
qed





text \<open>
  C9. Two calls that differ in the length alone end alike: both raise the same error, or
  both return a report, and the two reports agree on velocity, Reynolds number, flow
  regime, friction factor and the whole pressure-containment section.
\<close>

theorem length_independence:
  "(case (analyze_pipeline q od wt len1 e0 e1 p rho mu rough g,
          analyze_pipeline q od wt len2 e0 e1 p rho mu rough g) of
      (Inl x, Inl y) \<Rightarrow> x = y
    | (Inr r1, Inr r2) \<Rightarrow>
        velocity_ms (flow_properties r1) = velocity_ms (flow_properties r2) \<and>
        reynolds_number (flow_properties r1) = reynolds_number (flow_properties r2) \<and>
        flow_regime (flow_properties r1) = flow_regime (flow_properties r2) \<and>
        friction_factor (friction r1) = friction_factor (friction r2) \<and>
        pressure_containment r1 = pressure_containment r2
    | _ \<Rightarrow> False)"
  by (auto simp: analyze_pipeline_def Let_def split: sum.splits option.splits prod.splits)

text \<open>
  A laminar example: 1 litre per second through 100 mm of internal diameter, 1 km long,
  100 m downhill, 20 bar at the inlet.
\<close>

lemma laminar_example_velocity: "calculate_flow_velocity (1 / 1000) (1 / 10) = 2 / (5 * pi)"
  by (simp add: calculate_flow_velocity_def power2_eq_square)

lemma laminar_example_reynolds:
  "calculate_reynolds_number (2 / (5 * pi)) (1 / 10) (1 / 1000) = Fin (40 / pi)"
  by (simp add: calculate_reynolds_number_def)

lemma laminar_example_friction_factor:
  "calculate_friction_factor (Fin (40 / pi)) 0 (1 / 10) = Inr (8 * pi / 5, ''Laminar'')"
proof -
  have "40 / pi < 2300" using pi_ge_two by (simp add: field_simps)
  moreover have "\<not> pi \<le> 0" using pi_gt_zero by linarith
  ultimately show ?thesis
    by (simp add: calculate_friction_factor_def calculate_friction_factor_laminar_def)
qed

lemma laminar_example_friction_drop:
  "calculate_friction_pressure_drop (8 * pi / 5) 1000 (1 / 10) (2 / (5 * pi)) 900 = 1152000 / pi"
  by (simp add: calculate_friction_pressure_drop_def power2_eq_square field_simps)

text \<open>
  C10. In that example the friction loss is \<open>1152000/\<pi>\<close> Pa, the minor-loss allowance a
  tenth of it, the elevation change \<open>-882900\<close> Pa, and the total pressure drop, their sum
  as \<open>calculate_total_pressure_drop\<close> returns it, is negative: the downhill assist is
  larger than the friction loss with its allowance. The reported outlet pressure is the
  inlet pressure of 20 bar less that negative total, above 20 bar and not clamped, and
  the loss percentage is negative.
\<close>

theorem downhill_outlet_exceeds_inlet:
  "\<exists>rep. analyze_pipeline (1 / 1000) 120 10 1 100 0 20 900 (1 / 1000) 0 ''X52'' = Inr rep \<and>
     friction_loss_pa (pressure_drop rep) = 1152000 / pi \<and>
     0 < friction_loss_pa (pressure_drop rep) \<and>
     elevation_change_pa (pressure_drop rep) = - 882900 \<and>
     minor_losses_pa (pressure_drop rep) = 0.10 * \<bar>friction_loss_pa (pressure_drop rep)\<bar> \<and>
     total_pressure_drop_pa (pressure_drop rep) =
       friction_loss_pa (pressure_drop rep) + elevation_change_pa (pressure_drop rep)
         + minor_losses_pa (pressure_drop rep) \<and>
     calculate_total_pressure_drop (friction_loss_pa (pressure_drop rep))
         (elevation_change_pa (pressure_drop rep)) =
       (total_pressure_drop_pa (pressure_drop rep), minor_losses_pa (pressure_drop rep)) \<and>
     friction_loss_pa (pressure_drop rep) + minor_losses_pa (pressure_drop rep)
       < - elevation_change_pa (pressure_drop rep) \<and>
     total_pressure_drop_pa (pressure_drop rep) < 0 \<and>
     inlet_pressure_bar (outlet_pressure rep) = 20 \<and>
     outlet_pressure_bar (outlet_pressure rep) =
       20 - total_pressure_drop_pa (pressure_drop rep) / 100000 \<and>
     20 < outlet_pressure_bar (outlet_pressure rep) \<and>
     pressure_loss_percent (outlet_pressure rep) =
       total_pressure_drop_pa (pressure_drop rep) / (20 * 100000) * 100 \<and>
     pressure_loss_percent (outlet_pressure rep) < 0"
proof -
  have b: "1152000 / pi \<le> 576000" using pi_ge_two by (simp add: field_simps)
  have p: "0 < 1152000 / pi" by simp
  show ?thesis
    using b p
    by (simp add: analyze_pipeline_def Let_def calculate_internal_diameter_def
        laminar_example_velocity laminar_example_reynolds laminar_example_friction_factor
        laminar_example_friction_drop grade_X52 calculate_elevation_pressure_drop_def
        G_ACCELERATION_def calculate_total_pressure_drop_def)
      (simp add: field_simps)
qed

end
